theory Spec2Isabelle
  imports Complex_Main
begin

section \<open>The local countdown timer of \<^verbatim>\<open>pyvesync/helpers.py\<close>\<close>

subsection \<open>Data model\<close>

text \<open>
  The dataclass \<^verbatim>\<open>Timer\<close>. The fields \<^verbatim>\<open>_status\<close> and \<^verbatim>\<open>_remain\<close> are named
  \<open>priv_status\<close> and \<open>priv_remain\<close>, the field \<^verbatim>\<open>id\<close> is \<open>timer_id\<close>. The status is
  a Python string, the times are Python integers (seconds), \<^verbatim>\<open>update_time\<close> is an
  integer or \<^verbatim>\<open>None\<close>.
\<close>

record Timer =
  timer_duration :: int
  action :: string
  timer_id :: int
  priv_status :: string
  priv_remain :: int
  update_time :: "int option"

text \<open>
  The only exception the timer raises is Python's \<^verbatim>\<open>ValueError\<close>, from the status
  setter.
\<close>

datatype error = ValueError

text \<open>
  The wall clock. Every evaluation of \<^verbatim>\<open>int(time.time())\<close> is one read; a clock gives
  the value of the \<open>i\<close>-th read made while one operation runs. The functions below
  thread the number of reads made so far next to the timer, so that each read of the
  source is a separate input of the model.
\<close>

type_synonym clock = "nat \<Rightarrow> int"

subsection \<open>Construction\<close>

text \<open>
  The generated \<^verbatim>\<open>__init__\<close> followed by \<^verbatim>\<open>__post_init__\<close>: every field is taken
  from its argument, and \<^verbatim>\<open>_remain\<close> is then overwritten by \<^verbatim>\<open>remaining\<close>, or by
  the duration when \<^verbatim>\<open>remaining\<close> is \<^verbatim>\<open>None\<close>.
\<close>

definition Timer_init ::
  "int \<Rightarrow> string \<Rightarrow> int \<Rightarrow> int option \<Rightarrow> string \<Rightarrow> int \<Rightarrow> int option \<Rightarrow> Timer" where
  "Timer_init duration act ident remaining status0 remain0 update_time0 =
     (let self = \<lparr> timer_duration = duration, action = act, timer_id = ident,
                   priv_status = status0, priv_remain = remain0,
                   update_time = update_time0 \<rparr>
      in case remaining of
           Some r \<Rightarrow> self\<lparr>priv_remain := r\<rparr>
         | None \<Rightarrow> self\<lparr>priv_remain := timer_duration self\<rparr>)"

text \<open>
  A call that leaves the optional fields to their defaults: status \<^verbatim>\<open>'active'\<close>,
  \<^verbatim>\<open>_remain = 0\<close>, and for \<^verbatim>\<open>update_time\<close> the value that \<^verbatim>\<open>int(time.time())\<close> had
  when the class body was executed (the default expression of a dataclass field is
  evaluated once, at class definition). That value is the parameter \<open>class_time\<close>.
\<close>

definition Timer_new :: "int \<Rightarrow> int \<Rightarrow> string \<Rightarrow> int \<Rightarrow> int option \<Rightarrow> Timer" where
  "Timer_new class_time duration act ident remaining =
     Timer_init duration act ident remaining ''active'' 0 (Some class_time)"

subsection \<open>Operations\<close>

text \<open>The property \<^verbatim>\<open>status\<close> (getter): the stored status.\<close>

definition Timer_status :: "Timer \<Rightarrow> string" where
  "Timer_status self = priv_status self"

text \<open>\<^verbatim>\<open>end()\<close>.\<close>

definition Timer_end :: "Timer \<Rightarrow> Timer" where
  "Timer_end self = self\<lparr>priv_status := ''done'', priv_remain := 0, update_time := None\<rparr>"

text \<open>
  The property \<^verbatim>\<open>_seconds_since_check\<close>: no clock read when \<^verbatim>\<open>update_time\<close> is
  \<^verbatim>\<open>None\<close>, one read otherwise. It returns the seconds and the new number of reads.
\<close>

definition seconds_since_check :: "clock \<Rightarrow> nat \<Rightarrow> Timer \<Rightarrow> int \<times> nat" where
  "seconds_since_check clk n self =
     (case update_time self of
        None \<Rightarrow> (0, n)
      | Some u \<Rightarrow> (clk n - u, Suc n))"

text \<open>
  \<^verbatim>\<open>_internal_update()\<close>. The condition of the second \<^verbatim>\<open>if\<close> is evaluated left to
  right with Python's short circuit: a timer that is done reads no clock, any other
  reads \<^verbatim>\<open>_seconds_since_check\<close> before its status is compared with \<^verbatim>\<open>'active'\<close>. The
  third \<^verbatim>\<open>if\<close> evaluates \<^verbatim>\<open>_seconds_since_check\<close> again and then reads the clock once
  more for \<^verbatim>\<open>update_time\<close>.
\<close>

definition internal_update :: "clock \<Rightarrow> nat \<Rightarrow> Timer \<Rightarrow> nat \<times> Timer" where
  "internal_update clk n self =
     (if priv_status self = ''paused'' then (n, self\<lparr>update_time := None\<rparr>)
      else
        let (n1, self1) =
              (if priv_status self = ''done''
               then (n, self\<lparr>priv_status := ''done'', update_time := None, priv_remain := 0\<rparr>)
               else
                 let (secs, n') = seconds_since_check clk n self
                 in if secs > priv_remain self \<and> priv_status self = ''active''
                    then (n', self\<lparr>priv_status := ''done'', update_time := None,
                                    priv_remain := 0\<rparr>)
                    else (n', self))
        in if priv_status self1 = ''active''
           then
             let (secs, n2) = seconds_since_check clk n1 self1;
                 self2 = self1\<lparr>priv_remain := priv_remain self1 - secs\<rparr>
             in (Suc n2, self2\<lparr>update_time := Some (clk n2)\<rparr>)
           else (n1, self1))"

text \<open>
  The setter of \<^verbatim>\<open>status\<close>. A raise leaves the timer as it is at that point, so the
  result is the outcome together with the read count and the timer.
\<close>

definition Timer_status_set ::
  "clock \<Rightarrow> string \<Rightarrow> nat \<Rightarrow> Timer \<Rightarrow> (error + unit) \<times> nat \<times> Timer" where
  "Timer_status_set clk status n self =
     (if status \<notin> set [''active'', ''paused'', ''done''] then (Inl ValueError, n, self)
      else
        let (n1, self1) = internal_update clk n self
        in if status = ''done'' \<or> priv_status self1 = ''done''
           then (Inr (), n1, Timer_end self1)
           else
             let (n2, self2) =
                   (if Timer_status self1 = ''paused'' \<and> status = ''active''
                    then (Suc n1, self1\<lparr>update_time := Some (clk n1)\<rparr>)
                    else (n1, self1));
                 self3 =
                   (if Timer_status self2 = ''active'' \<and> status = ''paused''
                    then self2\<lparr>update_time := None\<rparr>
                    else self2)
             in (Inr (), n2, self3\<lparr>priv_status := status\<rparr>))"

text \<open>The property \<^verbatim>\<open>time_remaining\<close>: getter and setter.\<close>

definition time_remaining :: "clock \<Rightarrow> nat \<Rightarrow> Timer \<Rightarrow> int \<times> nat \<times> Timer" where
  "time_remaining clk n self =
     (let (n1, self1) = internal_update clk n self
      in (priv_remain self1, n1, self1))"

definition time_remaining_set :: "clock \<Rightarrow> int \<Rightarrow> nat \<Rightarrow> Timer \<Rightarrow> nat \<times> Timer" where
  "time_remaining_set clk remaining n self =
     (if remaining \<le> 0 then (n, Timer_end self)
      else
        let (n1, self1) = internal_update clk n self
        in if priv_status self1 = ''done''
           then (n1, self1\<lparr>priv_remain := 0\<rparr>)
           else (n1, self1\<lparr>priv_remain := remaining\<rparr>))"

text \<open>
  The derived properties \<^verbatim>\<open>running\<close>, \<^verbatim>\<open>paused\<close> and \<^verbatim>\<open>done\<close>. The first and the
  last read \<^verbatim>\<open>time_remaining\<close>, which updates the timer.
\<close>

definition Timer_running :: "clock \<Rightarrow> nat \<Rightarrow> Timer \<Rightarrow> bool \<times> nat \<times> Timer" where
  "Timer_running clk n self =
     (let (r, n1, self1) = time_remaining clk n self
      in (r > 0 \<and> Timer_status self1 = ''active'', n1, self1))"

definition Timer_paused :: "Timer \<Rightarrow> bool" where
  "Timer_paused self = (Timer_status self = ''paused'')"

definition Timer_done :: "clock \<Rightarrow> nat \<Rightarrow> Timer \<Rightarrow> bool \<times> nat \<times> Timer" where
  "Timer_done clk n self =
     (let (r, n1, self1) = time_remaining clk n self
      in (r \<le> 0 \<or> priv_status self1 = ''done'', n1, self1))"

text \<open>\<^verbatim>\<open>start()\<close>, \<^verbatim>\<open>update(time_remaining=, status=)\<close> and \<^verbatim>\<open>pause()\<close>.\<close>

definition Timer_start :: "clock \<Rightarrow> nat \<Rightarrow> Timer \<Rightarrow> (error + unit) \<times> nat \<times> Timer" where
  "Timer_start clk n self =
     (if priv_status self \<noteq> ''paused'' then (Inr (), n, self)
      else Timer_status_set clk ''active'' (Suc n) (self\<lparr>update_time := Some (clk n)\<rparr>))"

definition Timer_update ::
  "clock \<Rightarrow> int option \<Rightarrow> string option \<Rightarrow> nat \<Rightarrow> Timer \<Rightarrow> (error + unit) \<times> nat \<times> Timer" where
  "Timer_update clk remaining status n self =
     (let (n1, self1) =
            (case remaining of
               Some r \<Rightarrow> time_remaining_set clk r n self
             | None \<Rightarrow> (n, self))
      in case status of
           Some s \<Rightarrow> Timer_status_set clk s n1 self1
         | None \<Rightarrow> (Inr (), n1, self1))"

definition Timer_pause :: "clock \<Rightarrow> nat \<Rightarrow> Timer \<Rightarrow> (error + unit) \<times> nat \<times> Timer" where
  "Timer_pause clk n self =
     (let (n1, self1) = internal_update clk n self
      in if Timer_status self1 = ''done'' then (Inr (), n1, self1)
         else
           case Timer_status_set clk ''paused'' n1 self1 of
             (Inl e, n2, self2) \<Rightarrow> (Inl e, n2, self2)
           | (Inr u, n2, self2) \<Rightarrow> (Inr (), n2, self2\<lparr>update_time := None\<rparr>))"

subsection \<open>Operations as data\<close>

text \<open>
  One constructor for each operation of the timer, and the value an operation
  returns. \<open>exec\<close> runs one operation from the first clock read; its result is the
  outcome (a raised error or the returned value), the number of clock reads made, and
  the timer afterwards.
\<close>

datatype operation =
    SetStatus string
  | GetStatus
  | GetRemaining
  | SetRemaining int
  | End
  | Start
  | Pause
  | Update "int option" "string option"
  | IsRunning
  | IsPaused
  | IsDone

datatype val = VNone | VStr string | VInt int | VBool bool

definition returning :: "(error + unit) \<times> nat \<times> Timer \<Rightarrow> (error + val) \<times> nat \<times> Timer" where
  "returning r =
     (case r of
        (Inl e, n, self) \<Rightarrow> (Inl e, n, self)
      | (Inr u, n, self) \<Rightarrow> (Inr VNone, n, self))"

fun exec :: "clock \<Rightarrow> operation \<Rightarrow> Timer \<Rightarrow> (error + val) \<times> nat \<times> Timer" where
  "exec clk (SetStatus s) self = returning (Timer_status_set clk s 0 self)"
| "exec clk GetStatus self = (Inr (VStr (Timer_status self)), 0, self)"
| "exec clk GetRemaining self =
     (case time_remaining clk 0 self of (r, n, self') \<Rightarrow> (Inr (VInt r), n, self'))"
| "exec clk (SetRemaining r) self =
     (case time_remaining_set clk r 0 self of (n, self') \<Rightarrow> (Inr VNone, n, self'))"
| "exec clk End self = (Inr VNone, 0, Timer_end self)"
| "exec clk Start self = returning (Timer_start clk 0 self)"
| "exec clk Pause self = returning (Timer_pause clk 0 self)"
| "exec clk (Update r s) self = returning (Timer_update clk r s 0 self)"
| "exec clk IsRunning self =
     (case Timer_running clk 0 self of (b, n, self') \<Rightarrow> (Inr (VBool b), n, self'))"
| "exec clk IsPaused self = (Inr (VBool (Timer_paused self)), 0, self)"
| "exec clk IsDone self =
     (case Timer_done clk 0 self of (b, n, self') \<Rightarrow> (Inr (VBool b), n, self'))"

definition outcome :: "(error + val) \<times> nat \<times> Timer \<Rightarrow> error + val" where
  "outcome r = fst r"

definition reads :: "(error + val) \<times> nat \<times> Timer \<Rightarrow> nat" where
  "reads r = fst (snd r)"

definition after :: "(error + val) \<times> nat \<times> Timer \<Rightarrow> Timer" where
  "after r = snd (snd r)"

text \<open>
  A sequence of operations, each with the clock it runs against. An operation that
  raises leaves the timer as it was at the raise, and the caller may go on using it.
\<close>

fun run :: "(clock \<times> operation) list \<Rightarrow> Timer \<Rightarrow> Timer" where
  "run [] self = self"
| "run ((clk, op) # rest) self = run rest (after (exec clk op self))"

text \<open>The clock of an operation during which the time does not advance.\<close>

definition at_time :: "int \<Rightarrow> clock" where
  "at_time now = (\<lambda>i. now)"


text \<open>
  The clock that advances by one second between consecutive reads, starting at \<open>t0\<close>.
\<close>

definition ticking :: "int \<Rightarrow> clock" where
  "ticking t0 = (\<lambda>i. t0 + int i)"

text \<open>
  A sequence of operations, each running at one moment: the time does not advance
  while an operation runs.
\<close>

definition run_at :: "(int \<times> operation) list \<Rightarrow> Timer \<Rightarrow> Timer" where
  "run_at steps = run (map (\<lambda>(now, op). (at_time now, op)) steps)"

subsection \<open>The predicates of the specification\<close>

text \<open>
  The elapsed time of the reconciliation rule: \<open>now - last_update\<close>, and 0 when
  \<open>last_update\<close> is absent.
\<close>

definition elapsed :: "int \<Rightarrow> Timer \<Rightarrow> int" where
  "elapsed now self = (case update_time self of None \<Rightarrow> 0 | Some u \<Rightarrow> now - u)"

text \<open>The status is one of the three recognised states.\<close>

definition known_status :: "Timer \<Rightarrow> bool" where
  "known_status self = (priv_status self \<in> set [''active'', ''paused'', ''done''])"

text \<open>
  The two invariants on the status: done implies that nothing remains and that
  \<open>last_update\<close> is absent, paused implies that \<open>last_update\<close> is absent.
\<close>

definition status_invariant :: "Timer \<Rightarrow> bool" where
  "status_invariant self =
     ((priv_status self = ''done'' \<longrightarrow> priv_remain self = 0 \<and> update_time self = None)
      \<and> (priv_status self = ''paused'' \<longrightarrow> update_time self = None))"

text \<open>
  The invariants of the data model as the specification lists them: the two above,
  and the remaining time within \<open>[0, duration]\<close>.
\<close>

definition data_invariant :: "Timer \<Rightarrow> bool" where
  "data_invariant self =
     (status_invariant self \<and> 0 \<le> priv_remain self
      \<and> priv_remain self \<le> timer_duration self)"

section \<open>The response-code predicate\<close>

text \<open>
  The values of a parsed JSON response: \<^verbatim>\<open>None\<close>, booleans, integers, floats (as
  reals), strings, lists and dictionaries. A dictionary is the list of its items in
  iteration order.
\<close>

datatype json =
    JNull
  | JBool bool
  | JInt int
  | JFloat real
  | JStr string
  | JList "json list"
  | JDict "(string \<times> json) list"







section \<open>Properties of the timer\<close>

subsection \<open>Reconciliation, case by case\<close>

lemmas timer_defs = internal_update_def seconds_since_check_def Timer_status_set_def
  Timer_status_def Timer_end_def time_remaining_def time_remaining_set_def Timer_running_def
  Timer_paused_def Timer_done_def Timer_start_def Timer_update_def Timer_pause_def
  returning_def outcome_def reads_def after_def

text \<open>
  The timer that \<^verbatim>\<open>_internal_update()\<close> leaves, with the clock reads it depends on:
  the comparison uses the first read, the subtraction the second, and the new
  \<^verbatim>\<open>update_time\<close> is the third.
\<close>

lemma internal_update_timer:
  "snd (internal_update clk n t) =
     (if priv_status t = ''paused'' then t\<lparr>update_time := None\<rparr>
      else if priv_status t = ''done'' then Timer_end t
      else if priv_status t = ''active'' then
        (case update_time t of
           None \<Rightarrow> if 0 > priv_remain t then Timer_end t
                   else t\<lparr>update_time := Some (clk n)\<rparr>
         | Some u \<Rightarrow> if clk n - u > priv_remain t then Timer_end t
                   else t\<lparr>priv_remain := priv_remain t - (clk (Suc n) - u),
                          update_time := Some (clk (Suc (Suc n)))\<rparr>)
      else t)"
  by (simp add: internal_update_def seconds_since_check_def Timer_end_def Let_def
      split: option.splits)

text \<open>The number of clock reads after \<^verbatim>\<open>_internal_update()\<close>.\<close>

lemma internal_update_reads:
  "fst (internal_update clk n t) =
     (if priv_status t = ''active'' then
        (case update_time t of
           None \<Rightarrow> if 0 > priv_remain t then n else Suc n
         | Some u \<Rightarrow> if clk n - u > priv_remain t then Suc n else n + 3)
      else if priv_status t = ''paused'' \<or> priv_status t = ''done'' then n
      else (case update_time t of None \<Rightarrow> n | Some u \<Rightarrow> Suc n))"
  by (simp add: internal_update_def seconds_since_check_def Timer_end_def Let_def
      split: option.splits)

subsection \<open>Reading the status\<close>

text \<open>
  C1, as the code has it. The specification says that reading the status reconciles first, so
  that an active timer whose elapsed time exceeds its remaining seconds reads as
  \<^verbatim>\<open>'done'\<close>. The getter returns the stored status as it is: below, a timer with 5
  seconds remaining, updated at time 0 and read at time 10, reads \<^verbatim>\<open>'active'\<close>.
\<close>

theorem C1_status_read_does_not_reconcile:
  "priv_status (Timer_new 0 5 ''poweroff'' 1 None) = ''active''
   \<and> priv_remain (Timer_new 0 5 ''poweroff'' 1 None)
       < elapsed 10 (Timer_new 0 5 ''poweroff'' 1 None)
   \<and> outcome (exec (at_time 10) GetStatus (Timer_new 0 5 ''poweroff'' 1 None))
       = Inr (VStr ''active'')
   \<and> outcome (exec (at_time 10) GetStatus (Timer_new 0 5 ''poweroff'' 1 None))
       \<noteq> Inr (VStr ''done'')"
  by (simp add: timer_defs elapsed_def Timer_new_def Timer_init_def at_time_def Let_def)

text \<open>
  C1, amended: reading the status returns the stored status, reads no clock and leaves
  the timer unchanged. Of an active timer whose elapsed time strictly exceeds its
  remaining seconds it returns \<^verbatim>\<open>'active'\<close>; once the remaining time has been read
  (which reconciles), the status reads \<^verbatim>\<open>'done'\<close>.
\<close>

theorem C1_status_read_returns_stored:
  "outcome (exec clk GetStatus t) = Inr (VStr (priv_status t))
   \<and> reads (exec clk GetStatus t) = 0
   \<and> after (exec clk GetStatus t) = t
   \<and> (priv_status t = ''active'' \<and> update_time t = Some u \<and> priv_remain t < clk 0 - u \<longrightarrow>
        outcome (exec clk GetStatus t) = Inr (VStr ''active'')
        \<and> outcome (exec clk GetRemaining t) = Inr (VInt 0)
        \<and> outcome (exec clk' GetStatus (after (exec clk GetRemaining t)))
            = Inr (VStr ''done''))"
  by (simp add: timer_defs Let_def)

theorem C1_status_read_returns_stored_witness:
  "priv_status (Timer_new 0 5 ''poweroff'' 1 None) = ''active''
   \<and> update_time (Timer_new 0 5 ''poweroff'' 1 None) = Some 0
   \<and> priv_remain (Timer_new 0 5 ''poweroff'' 1 None) < at_time 10 0 - 0
   \<and> outcome (exec (at_time 10) GetStatus (Timer_new 0 5 ''poweroff'' 1 None))
       = Inr (VStr ''active'')
   \<and> outcome (exec (at_time 10) GetRemaining (Timer_new 0 5 ''poweroff'' 1 None))
       = Inr (VInt 0)
   \<and> outcome (exec (at_time 11) GetStatus
        (after (exec (at_time 10) GetRemaining (Timer_new 0 5 ''poweroff'' 1 None))))
       = Inr (VStr ''done'')"
  using C1_status_read_returns_stored
    [of "at_time 10" "Timer_new 0 5 ''poweroff'' 1 None" 0 "at_time 11"]
  by (simp add: Timer_new_def Timer_init_def at_time_def Let_def)

subsection \<open>The reconciliation rule\<close>

text \<open>
  C2, as the code has it. The specification says that reconciliation changes nothing in a
  paused timer. \<^verbatim>\<open>_internal_update()\<close> clears \<^verbatim>\<open>update_time\<close> of a paused timer:
  the timer below is built paused with \<^verbatim>\<open>update_time = 3\<close>, and reconciling it
  changes it.
\<close>

theorem C2_paused_reconciliation_clears_update_time:
  "priv_status (Timer_init 10 ''poweroff'' 1 None ''paused'' 0 (Some 3)) = ''paused''
   \<and> snd (internal_update (at_time 7) 0 (Timer_init 10 ''poweroff'' 1 None ''paused'' 0 (Some 3)))
       \<noteq> Timer_init 10 ''poweroff'' 1 None ''paused'' 0 (Some 3)"
  by (simp add: timer_defs Timer_init_def at_time_def Let_def)

text \<open>
  C2, amended: at one moment \<open>now\<close>, reconciliation of a paused timer clears
  \<open>last_update\<close> and changes nothing else (so it changes nothing when \<open>last_update\<close>
  is absent already); a timer that is done, or active with \<open>elapsed > remaining\<close>, is
  done afterwards with nothing remaining and \<open>last_update\<close> cleared; any other
  active timer has \<open>remaining\<close> decremented by \<open>elapsed\<close> and \<open>last_update = now\<close>.
  Reading the remaining time reconciles first and returns what then remains.
  Consequently, reading the remaining time of an active timer with \<open>remaining = R\<close>
  when \<open>R + 1\<close> seconds have elapsed returns 0 and leaves the status done.
\<close>

theorem C2_reconciliation_rule:
  "snd (internal_update (at_time now) n t) =
     (if priv_status t = ''paused'' then t\<lparr>update_time := None\<rparr>
      else if priv_status t = ''done''
              \<or> (priv_status t = ''active'' \<and> elapsed now t > priv_remain t)
      then t\<lparr>priv_status := ''done'', priv_remain := 0, update_time := None\<rparr>
      else if priv_status t = ''active''
      then t\<lparr>priv_remain := priv_remain t - elapsed now t, update_time := Some now\<rparr>
      else t)
   \<and> time_remaining clk n t
       = (priv_remain (snd (internal_update clk n t)), internal_update clk n t)
   \<and> (priv_status t = ''paused'' \<and> update_time t = None \<longrightarrow>
        snd (internal_update clk n t) = t)
   \<and> (priv_status t = ''active'' \<and> update_time t = Some u
        \<and> clk n = u + priv_remain t + 1 \<longrightarrow>
        fst (time_remaining clk n t) = 0
        \<and> priv_status (snd (snd (time_remaining clk n t))) = ''done'')"
  by (simp add: internal_update_timer elapsed_def at_time_def time_remaining_def
      Timer_end_def split_def split: option.splits)

theorem C2_reconciliation_rule_witness:
  "priv_status (Timer_new 0 5 ''poweroff'' 1 None) = ''active''
   \<and> update_time (Timer_new 0 5 ''poweroff'' 1 None) = Some 0
   \<and> at_time 6 0 = 0 + priv_remain (Timer_new 0 5 ''poweroff'' 1 None) + 1
   \<and> fst (time_remaining (at_time 6) 0 (Timer_new 0 5 ''poweroff'' 1 None)) = 0
   \<and> priv_status (snd (snd (time_remaining (at_time 6) 0 (Timer_new 0 5 ''poweroff'' 1 None))))
       = ''done''
   \<and> priv_status (Timer_init 10 ''poweroff'' 1 (Some 6) ''paused'' 0 None) = ''paused''
   \<and> update_time (Timer_init 10 ''poweroff'' 1 (Some 6) ''paused'' 0 None) = None
   \<and> snd (internal_update (at_time 100) 0 (Timer_init 10 ''poweroff'' 1 (Some 6) ''paused'' 0 None))
       = Timer_init 10 ''poweroff'' 1 (Some 6) ''paused'' 0 None
   \<and> snd (internal_update (at_time 4) 0 (Timer_new 0 10 ''poweroff'' 1 None))
       = (Timer_new 0 10 ''poweroff'' 1 None)\<lparr>priv_remain := 6, update_time := Some 4\<rparr>"
  using C2_reconciliation_rule
      [of 6 0 "Timer_new 0 5 ''poweroff'' 1 None" "at_time 6" 0]
    C2_reconciliation_rule
      [of 100 0 "Timer_init 10 ''poweroff'' 1 (Some 6) ''paused'' 0 None" "at_time 100" 0]
    C2_reconciliation_rule
      [of 4 0 "Timer_new 0 10 ''poweroff'' 1 None" "at_time 4" 0]
  by (simp add: Timer_new_def Timer_init_def at_time_def elapsed_def Let_def)

subsection \<open>The terminal state\<close>

lemma done_step:
  "priv_status t = ''done'' \<Longrightarrow> priv_status (after (exec clk op t)) = ''done''"
  by (cases op)
    (auto simp: timer_defs Let_def split: option.splits prod.splits sum.splits if_splits)

text \<open>
  C3: the done state is terminal. Whatever operations are applied to a timer that is
  done, with whatever arguments and clocks (a status setter that raises included),
  the status stays \<^verbatim>\<open>'done'\<close>.
\<close>

theorem C3_done_is_terminal:
  "priv_status t = ''done'' \<Longrightarrow> priv_status (run ops t) = ''done''"
proof (induction ops arbitrary: t)
  case Nil
  then show ?case by simp
next
  case (Cons step ops)
  obtain clk op where step: "step = (clk, op)" by (cases step)
  from Cons.prems have "priv_status (after (exec clk op t)) = ''done''"
    by (rule done_step)
  then have "priv_status (run ops (after (exec clk op t))) = ''done''"
    by (rule Cons.IH)
  then show ?case using step by simp
qed

theorem C3_done_is_terminal_witness:
  "priv_status (Timer_end (Timer_new 0 10 ''poweroff'' 1 None)) = ''done''
   \<and> priv_status
        (run [(at_time 3, SetStatus ''active''), (at_time 4, SetRemaining 50),
              (at_time 5, Start), (at_time 6, SetStatus ''paused''),
              (at_time 7, Update (Some 20) (Some ''active'')), (at_time 8, Pause),
              (at_time 9, SetStatus ''bogus''), (at_time 9, GetRemaining),
              (at_time 9, IsRunning)]
           (Timer_end (Timer_new 0 10 ''poweroff'' 1 None))) = ''done''"
  using C3_done_is_terminal
    [of "Timer_end (Timer_new 0 10 ''poweroff'' 1 None)"
        "[(at_time 3, SetStatus ''active''), (at_time 4, SetRemaining 50),
          (at_time 5, Start), (at_time 6, SetStatus ''paused''),
          (at_time 7, Update (Some 20) (Some ''active'')), (at_time 8, Pause),
          (at_time 9, SetStatus ''bogus''), (at_time 9, GetRemaining),
          (at_time 9, IsRunning)]"]
  by (simp add: Timer_end_def)

subsection \<open>Invariants of the reachable states\<close>

lemma status_invariant_step:
  "known_status t \<and> status_invariant t \<Longrightarrow>
   known_status (after (exec clk op t)) \<and> status_invariant (after (exec clk op t))"
  by (cases op)
    (auto simp: known_status_def status_invariant_def timer_defs Let_def
      split: option.splits prod.splits sum.splits if_splits)

lemma status_invariant_run:
  "known_status t \<and> status_invariant t \<Longrightarrow>
   known_status (run ops t) \<and> status_invariant (run ops t)"
proof (induction ops arbitrary: t)
  case Nil
  then show ?case by simp
next
  case (Cons step ops)
  obtain clk op where step: "step = (clk, op)" by (cases step)
  from Cons.prems
  have "known_status (after (exec clk op t)) \<and> status_invariant (after (exec clk op t))"
    by (rule status_invariant_step)
  then show ?case using Cons.IH step by simp
qed

lemma remain_nonneg_step:
  "0 \<le> priv_remain t \<Longrightarrow> 0 \<le> priv_remain (after (exec (at_time now) op t))"
  by (cases op)
    (auto simp: timer_defs at_time_def Let_def
      split: option.splits prod.splits sum.splits if_splits)

lemma remain_nonneg_run_at:
  "0 \<le> priv_remain t \<Longrightarrow> 0 \<le> priv_remain (run_at steps t)"
proof (induction steps arbitrary: t)
  case Nil
  then show ?case by (simp add: run_at_def)
next
  case (Cons step steps)
  obtain now op where step: "step = (now, op)" by (cases step)
  from Cons.prems have "0 \<le> priv_remain (after (exec (at_time now) op t))"
    by (rule remain_nonneg_step)
  then have "0 \<le> priv_remain (run_at steps (after (exec (at_time now) op t)))"
    by (rule Cons.IH)
  then show ?case using step by (simp add: run_at_def)
qed

text \<open>
  C4, as the code has it. The specification says that every state reached from a freshly
  constructed timer satisfies the invariants of the data model, the remaining time in
  \<open>[0, duration]\<close> among them. Setting the remaining time of a fresh timer of 10
  seconds to 50 stores 50.
\<close>

theorem C4_remaining_exceeds_duration:
  "\<not> data_invariant
       (run [(at_time 0, SetRemaining 50)] (Timer_new 0 10 ''poweroff'' 1 None))"
  by (simp add: data_invariant_def status_invariant_def timer_defs Timer_new_def
      Timer_init_def at_time_def Let_def)

text \<open>
  C4, amended: every state reached from a freshly constructed timer by any sequence of
  operations, with any clocks, has one of the three statuses and satisfies: done
  implies that nothing remains and \<open>last_update\<close> is absent; paused implies that
  \<open>last_update\<close> is absent. The remaining time is not bounded by the duration. It is
  never negative when the timer was constructed with a remaining time that is not
  negative and the time does not advance while an operation runs.
\<close>

theorem C4_reachable_states:
  "known_status (run ops (Timer_new c d a i r))
   \<and> status_invariant (run ops (Timer_new c d a i r))
   \<and> (0 \<le> priv_remain (Timer_new c d a i r) \<longrightarrow>
        0 \<le> priv_remain (run_at steps (Timer_new c d a i r)))"
proof -
  have "known_status (Timer_new c d a i r) \<and> status_invariant (Timer_new c d a i r)"
    by (simp add: known_status_def status_invariant_def Timer_new_def Timer_init_def
        Let_def split: option.splits)
  then have "known_status (run ops (Timer_new c d a i r))
      \<and> status_invariant (run ops (Timer_new c d a i r))"
    by (rule status_invariant_run)
  then show ?thesis using remain_nonneg_run_at by blast
qed

theorem C4_reachable_states_witness:
  "0 \<le> priv_remain (Timer_new 0 10 ''poweroff'' 1 None)
   \<and> priv_status (run [(ticking 4, GetRemaining), (ticking 8, Pause)]
        (Timer_new 0 10 ''poweroff'' 1 None)) = ''paused''
   \<and> update_time (run [(ticking 4, GetRemaining), (ticking 8, Pause)]
        (Timer_new 0 10 ''poweroff'' 1 None)) = None
   \<and> known_status (run [(ticking 4, GetRemaining), (ticking 8, Pause)]
        (Timer_new 0 10 ''poweroff'' 1 None))
   \<and> status_invariant (run [(ticking 4, GetRemaining), (ticking 8, Pause)]
        (Timer_new 0 10 ''poweroff'' 1 None))
   \<and> 0 \<le> priv_remain (run_at [(4, GetRemaining), (4, Pause), (104, Start), (110, IsDone)]
        (Timer_new 0 10 ''poweroff'' 1 None))"
  using C4_reachable_states
    [of "[(ticking 4, GetRemaining), (ticking 8, Pause)]" 0 10 "''poweroff''" 1 None
        "[(4, GetRemaining), (4, Pause), (104, Start), (110, IsDone)]"]
  by (simp add: timer_defs Timer_new_def Timer_init_def ticking_def Let_def)

subsection \<open>Failure\<close>



subsection \<open>A freshly constructed timer\<close>

text \<open>
  C6, at a failing input. The specification says that a timer constructed with a duration and
  no explicit remaining time reads as active with the whole duration remaining
  immediately after construction. The default of \<^verbatim>\<open>update_time\<close> is the time at
  which the class was defined, not the time of construction (and not \<^verbatim>\<open>None\<close>, which
  the docstring of the class gives as the default). When the class was defined at time
  1000 and a timer of 10 seconds is constructed and read at time 1004, its status is
  \<^verbatim>\<open>'active'\<close> and its remaining time is 6; constructed and read at time 1011, its
  remaining time is 0 and it is done.
\<close>

theorem C6_fresh_timer_counts_from_class_definition:
  "outcome (exec (at_time 1004) GetStatus (Timer_new 1000 10 ''poweroff'' 1 None))
     = Inr (VStr ''active'')
   \<and> outcome (exec (at_time 1004) GetRemaining (Timer_new 1000 10 ''poweroff'' 1 None))
       = Inr (VInt 6)
   \<and> outcome (exec (at_time 1011) GetRemaining (Timer_new 1000 10 ''poweroff'' 1 None))
       = Inr (VInt 0)
   \<and> priv_status (after (exec (at_time 1011) GetRemaining
        (Timer_new 1000 10 ''poweroff'' 1 None))) = ''done''"
  by (simp add: timer_defs Timer_new_def Timer_init_def at_time_def Let_def)

subsection \<open>Setting the remaining time\<close>

text \<open>
  C7: setting the remaining time to a value that is zero or negative does what
  \<^verbatim>\<open>end()\<close> does (status done, nothing remaining, \<open>last_update\<close> cleared), without
  reading the clock. With a positive value, a timer that is done after reconciliation
  stays done with nothing remaining, and any other timer has the value stored as its
  remaining time, its status being that after reconciliation.
\<close>

theorem C7_set_remaining:
  "(s \<le> 0 \<longrightarrow>
      time_remaining_set clk s n t = (n, Timer_end t)
      \<and> priv_status (snd (time_remaining_set clk s n t)) = ''done''
      \<and> priv_remain (snd (time_remaining_set clk s n t)) = 0
      \<and> update_time (snd (time_remaining_set clk s n t)) = None)
   \<and> (0 < s \<and> priv_status (snd (internal_update clk n t)) = ''done'' \<longrightarrow>
        priv_status (snd (time_remaining_set clk s n t)) = ''done''
        \<and> priv_remain (snd (time_remaining_set clk s n t)) = 0)
   \<and> (0 < s \<and> priv_status (snd (internal_update clk n t)) \<noteq> ''done'' \<longrightarrow>
        priv_remain (snd (time_remaining_set clk s n t)) = s
        \<and> priv_status (snd (time_remaining_set clk s n t))
            = priv_status (snd (internal_update clk n t)))"
  by (simp add: time_remaining_set_def Timer_end_def split: prod.splits)

theorem C7_set_remaining_witness:
  "time_remaining_set (at_time 4) 0 0 (Timer_new 0 10 ''poweroff'' 1 None)
     = (0, Timer_end (Timer_new 0 10 ''poweroff'' 1 None))
   \<and> priv_status (snd (time_remaining_set (at_time 4) 0 0 (Timer_new 0 10 ''poweroff'' 1 None)))
       = ''done''
   \<and> priv_status (snd (internal_update (at_time 4) 0
        (Timer_end (Timer_new 0 10 ''poweroff'' 1 None)))) = ''done''
   \<and> priv_status (snd (time_remaining_set (at_time 4) 50 0
        (Timer_end (Timer_new 0 10 ''poweroff'' 1 None)))) = ''done''
   \<and> priv_remain (snd (time_remaining_set (at_time 4) 50 0
        (Timer_end (Timer_new 0 10 ''poweroff'' 1 None)))) = 0
   \<and> priv_status (snd (internal_update (at_time 4) 0 (Timer_new 0 10 ''poweroff'' 1 None)))
       \<noteq> ''done''
   \<and> priv_remain (snd (time_remaining_set (at_time 4) 50 0 (Timer_new 0 10 ''poweroff'' 1 None)))
       = 50
   \<and> priv_status (snd (time_remaining_set (at_time 4) 50 0 (Timer_new 0 10 ''poweroff'' 1 None)))
       = ''active''"
  using C7_set_remaining [of 0 "at_time 4" 0 "Timer_new 0 10 ''poweroff'' 1 None"]
    C7_set_remaining [of 50 "at_time 4" 0 "Timer_end (Timer_new 0 10 ''poweroff'' 1 None)"]
    C7_set_remaining [of 50 "at_time 4" 0 "Timer_new 0 10 ''poweroff'' 1 None"]
  by (simp add: internal_update_timer Timer_end_def Timer_new_def Timer_init_def
      at_time_def Let_def)

subsection \<open>Clock reads of one operation\<close>

text \<open>
  C8, as the code has it. The specification says that an operation samples the clock once, so
  that a run whose reads differ gives the result and the timer of the single-sample
  run. \<^verbatim>\<open>_internal_update()\<close> reads the clock for the comparison, again for the
  subtraction and a third time for \<^verbatim>\<open>update_time\<close>. For a timer with 5 seconds
  remaining, updated at time 0, whose reads show 5, 6 and 7, reading the remaining
  time returns -1 and leaves \<^verbatim>\<open>update_time = 7\<close>; the run that samples once returns 0
  at time 5, and 0 with the timer done at times 6 and 7.
\<close>

theorem C8_reads_differ_within_operation:
  "exec (ticking 5) GetRemaining (Timer_new 0 5 ''poweroff'' 1 None)
     = (Inr (VInt (- 1)), 3,
        (Timer_new 0 5 ''poweroff'' 1 None)\<lparr>priv_remain := - 1, update_time := Some 7\<rparr>)
   \<and> exec (at_time 5) GetRemaining (Timer_new 0 5 ''poweroff'' 1 None)
       = (Inr (VInt 0), 3,
          (Timer_new 0 5 ''poweroff'' 1 None)\<lparr>priv_remain := 0, update_time := Some 5\<rparr>)
   \<and> exec (at_time 6) GetRemaining (Timer_new 0 5 ''poweroff'' 1 None)
       = (Inr (VInt 0), 1, Timer_end (Timer_new 0 5 ''poweroff'' 1 None))
   \<and> exec (at_time 7) GetRemaining (Timer_new 0 5 ''poweroff'' 1 None)
       = (Inr (VInt 0), 1, Timer_end (Timer_new 0 5 ''poweroff'' 1 None))"
  by (simp add: timer_defs Timer_new_def Timer_init_def at_time_def ticking_def Let_def)

text \<open>
  C8, amended: an operation reads the clock at most six times, and its result and the
  timer it leaves are determined by the timer before and the values read. When all
  reads of an operation show the same value \<open>now\<close>, they are those of the run at the
  single moment \<open>now\<close>.
\<close>

theorem C8_reads_bounded_and_steady_clock:
  "reads (exec clk op t) \<le> 6
   \<and> ((\<forall>i<6. clk i = now) \<longrightarrow> exec clk op t = exec (at_time now) op t)"
  by (cases op)
    (auto simp: timer_defs at_time_def Let_def numeral_eq_Suc less_Suc_eq all_conj_distrib
      split: option.splits prod.splits sum.splits if_splits)

theorem C8_reads_bounded_and_steady_clock_witness:
  "reads (exec (\<lambda>i. if i < 6 then 4 else 99) Pause (Timer_new 0 10 ''poweroff'' 1 None)) = 6
   \<and> exec (\<lambda>i. if i < 6 then 4 else 99) Pause (Timer_new 0 10 ''poweroff'' 1 None)
       = exec (at_time 4) Pause (Timer_new 0 10 ''poweroff'' 1 None)"
proof -
  have steady: "\<forall>i<6. (\<lambda>i::nat. if i < 6 then 4 else (99::int)) i = 4"
    by simp
  have "exec (\<lambda>i. if i < 6 then 4 else 99) Pause (Timer_new 0 10 ''poweroff'' 1 None)
      = exec (at_time 4) Pause (Timer_new 0 10 ''poweroff'' 1 None)"
    using C8_reads_bounded_and_steady_clock
      [of "\<lambda>i. if i < 6 then 4 else 99" Pause "Timer_new 0 10 ''poweroff'' 1 None" 4] steady
    by blast
  moreover
  have "reads (exec (at_time 4) Pause (Timer_new 0 10 ''poweroff'' 1 None)) = 6"
    by (simp add: timer_defs Timer_new_def Timer_init_def at_time_def Let_def)
  ultimately show ?thesis by simp
qed

subsection \<open>The boundary of the done transition\<close>

text \<open>
  C10: when the time elapsed since \<open>last_update\<close> of an active timer equals its
  remaining time exactly, reconciliation at that moment leaves the status
  \<^verbatim>\<open>'active'\<close> with nothing remaining. Read at that moment, \<^verbatim>\<open>done\<close> is true and
  \<^verbatim>\<open>running\<close> is false, of the timer before and of the timer after reconciliation,
  and the stored status is still \<^verbatim>\<open>'active'\<close>.
\<close>

theorem C10_elapsed_equals_remaining:
  "priv_status t = ''active'' \<Longrightarrow> update_time t = Some u \<Longrightarrow> now - u = priv_remain t \<Longrightarrow>
   internal_update (at_time now) n t
     = (n + 3, t\<lparr>priv_remain := 0, update_time := Some now\<rparr>)
   \<and> priv_status (snd (internal_update (at_time now) n t)) = ''active''
   \<and> Timer_done (at_time now) n t
       = (True, n + 3, t\<lparr>priv_remain := 0, update_time := Some now\<rparr>)
   \<and> Timer_running (at_time now) n t
       = (False, n + 3, t\<lparr>priv_remain := 0, update_time := Some now\<rparr>)
   \<and> Timer_done (at_time now) n (t\<lparr>priv_remain := 0, update_time := Some now\<rparr>)
       = (True, n + 3, t\<lparr>priv_remain := 0, update_time := Some now\<rparr>)
   \<and> Timer_running (at_time now) n (t\<lparr>priv_remain := 0, update_time := Some now\<rparr>)
       = (False, n + 3, t\<lparr>priv_remain := 0, update_time := Some now\<rparr>)
   \<and> Timer_status (t\<lparr>priv_remain := 0, update_time := Some now\<rparr>) = ''active''"
  by (simp add: timer_defs at_time_def Let_def)

theorem C10_elapsed_equals_remaining_witness:
  "priv_status (Timer_new 0 10 ''poweroff'' 1 None) = ''active''
   \<and> update_time (Timer_new 0 10 ''poweroff'' 1 None) = Some 0
   \<and> 10 - 0 = priv_remain (Timer_new 0 10 ''poweroff'' 1 None)
   \<and> priv_status (snd (internal_update (at_time 10) 0 (Timer_new 0 10 ''poweroff'' 1 None)))
       = ''active''
   \<and> priv_remain (snd (internal_update (at_time 10) 0 (Timer_new 0 10 ''poweroff'' 1 None)))
       = 0
   \<and> fst (Timer_done (at_time 10) 0 (Timer_new 0 10 ''poweroff'' 1 None)) = True
   \<and> fst (Timer_running (at_time 10) 0 (Timer_new 0 10 ''poweroff'' 1 None)) = False"
  using C10_elapsed_equals_remaining [of "Timer_new 0 10 ''poweroff'' 1 None" 0 10 0]
  by (simp add: Timer_new_def Timer_init_def Let_def)

section \<open>Properties of the response-code predicate\<close>










end
